theory Spec2Isabelle
  imports Complex_Main
begin

section \<open>The node-graph canvas (FlowCanvas): data model\<close>

text \<open>
  The canvas component keeps its state in React state cells and changes it in pointer and
  wheel handlers. Each handler is embedded as a function from the state at the time of the
  event to the state after it. JavaScript numbers are taken as exact reals; identifiers are
  strings.

  A \<open>Record<string, T>\<close> is a plain object: a finite map of own entries, behind which every
  read \<open>obj[key]\<close> also finds the members that the object inherits from
  \<open>Object.prototype\<close>. The handlers test such reads for truthiness, so a key that names an
  inherited member counts as present although the object has no own entry for it.
\<close>

record NodePosition =
  pos_x :: real
  pos_y :: real

record FlowConnection =
  id_conn :: string
  sourceId :: string
  targetId :: string
  label :: "string option"

text \<open>Of a puzzle record the canvas handlers read the identifier and the name only.\<close>

record PuzzleDefinition =
  id_pz :: string
  name_pz :: string

record DragLine =
  dl_sourceId :: string
  dl_currentX :: real
  dl_currentY :: real
  isReconnectingId :: "string option"

record SelectionRect =
  startX :: real
  startY :: real
  currentX :: real
  currentY :: real

record Transform =
  t_x :: real
  t_y :: real
  t_scale :: real

record MousePos =
  m_x :: real
  m_y :: real

text \<open>The result of \<open>getBoundingClientRect\<close> of the container, as far as it is read.\<close>

record DOMRect =
  rect_left :: real
  rect_top :: real
  rect_width :: real
  rect_height :: real

text \<open>
  A mouse event: the button, the client coordinates, and whether the event target lies
  inside an element of class \<open>socket\<close> or \<open>controls\<close> (what \<open>closest\<close> finds).
\<close>

record MouseEvent =
  button :: nat
  clientX :: real
  clientY :: real
  in_socket :: bool
  in_controls :: bool

type_synonym Positions = "string \<rightharpoonup> NodePosition"

text \<open>
  The state cells of the component that the pointer handlers read or write, and the log of
  the calls of the \<open>onUpdate\<close> callback (position object and connections, in call order).

  The position object is kept in two parts. \<open>positions\<close> holds the own entries whose
  coordinates are numbers. \<open>nanPositions\<close> holds the keys of the own entries
  \<open>{x: NaN, y: NaN}\<close>: a batch move writes such an entry when it reads an inherited member
  in place of a position (\<open>undefined + number\<close> is \<open>NaN\<close>), and \<open>NaN\<close> is not a real
  number. Such an entry is a truthy object; every comparison with its coordinates is false,
  and moving it leaves it as it is. An own entry with numbers takes precedence over a key
  in \<open>nanPositions\<close>.
\<close>

record CanvasState =
  positions :: Positions
  nanPositions :: "string set"
  connections :: "FlowConnection list"
  transform :: Transform
  isPanning :: bool
  lastMousePos :: MousePos
  selectedNodeIds :: "string list"
  selectionRect :: "SelectionRect option"
  draggingNodeId :: "string option"
  collapsedNodes :: "string \<rightharpoonup> bool"
  dragLine :: "DragLine option"
  onUpdate_log :: "((Positions \<times> string set) \<times> FlowConnection list) list"

text \<open>
  The initial values of the state cells, from the optional \<open>project.canvasState\<close>, whose
  stored positions have numbers as coordinates.
\<close>

definition initialState :: "(Positions \<times> FlowConnection list) option \<Rightarrow> CanvasState" where
  "initialState canvasState =
     \<lparr> positions = (case canvasState of None \<Rightarrow> Map.empty | Some cs \<Rightarrow> fst cs),
       nanPositions = {},
       connections = (case canvasState of None \<Rightarrow> [] | Some cs \<Rightarrow> snd cs),
       transform = \<lparr> t_x = 0, t_y = 0, t_scale = 1 \<rparr>,
       isPanning = False,
       lastMousePos = \<lparr> m_x = 0, m_y = 0 \<rparr>,
       selectedNodeIds = [],
       selectionRect = None,
       draggingNodeId = None,
       collapsedNodes = Map.empty,
       dragLine = None,
       onUpdate_log = [] \<rparr>"

text \<open>
  JavaScript truthiness of an optional string (\<open>if (id)\<close>, \<open>if (draggingNodeId)\<close>,
  \<open>if (dragLine.isReconnectingId)\<close>): absent and the empty string are both falsy.
\<close>

definition truthy :: "string option \<Rightarrow> bool" where
  "truthy v = (case v of None \<Rightarrow> False | Some s \<Rightarrow> s \<noteq> [])"

text \<open>
  The member names of \<open>Object.prototype\<close>, from the language (ECMAScript with its Annex B),
  not from the component. The first eleven are writable data properties whose values are
  functions; \<open>__proto__\<close> is an accessor whose getter returns the prototype object. Each
  value is truthy and has no property \<open>x\<close> or \<open>y\<close>. An assignment \<open>obj[key] = v\<close>
  under one of the eleven names creates an own entry; under \<open>__proto__\<close> it runs the setter
  and creates none (unless \<open>__proto__\<close> is an own entry already, which is then overwritten
  like any other).
\<close>

definition objectPrototypeDataKeys :: "string list" where
  "objectPrototypeDataKeys =
     [''constructor'', ''__defineGetter__'', ''__defineSetter__'', ''hasOwnProperty'',
      ''__lookupGetter__'', ''__lookupSetter__'', ''isPrototypeOf'', ''propertyIsEnumerable'',
      ''toString'', ''valueOf'', ''toLocaleString'']"

definition objectPrototypeKeys :: "string list" where
  "objectPrototypeKeys = objectPrototypeDataKeys @ [''__proto__'']"

section \<open>Connection store\<close>

text \<open>\<open>removeConnection\<close>: filter by identifier, store, report.\<close>

definition removeConnection :: "string \<Rightarrow> CanvasState \<Rightarrow> CanvasState" where
  "removeConnection cid s =
     (let newConns = filter (\<lambda>c. id_conn c \<noteq> cid) (connections s)
      in s\<lparr> connections := newConns,
            onUpdate_log := onUpdate_log s @ [((positions s, nanPositions s), newConns)] \<rparr>)"

text \<open>\<open>updateConnectionLabel\<close>: map over the connections, replacing the label where the
  identifier matches.\<close>

definition updateConnectionLabel :: "string \<Rightarrow> string \<Rightarrow> CanvasState \<Rightarrow> CanvasState" where
  "updateConnectionLabel cid lbl s =
     (let newConns = map (\<lambda>c. if id_conn c = cid then c\<lparr> label := Some lbl \<rparr> else c)
                         (connections s)
      in s\<lparr> connections := newConns,
            onUpdate_log := onUpdate_log s @ [((positions s, nanPositions s), newConns)] \<rparr>)"

text \<open>
  The decimal rendering of a non-negative integer, as the template string
  \<open>`conn-${Date.now()}`\<close> renders the clock reading.
\<close>

fun showNat :: "nat \<Rightarrow> string" where
  "showNat n =
     (if n < 10 then [''0123456789'' ! n]
      else showNat (n div 10) @ [''0123456789'' ! (n mod 10)])"

declare showNat.simps [simp del]

text \<open>
  \<open>handleSocketMouseDown\<close> (an output socket starts a fresh connection drag) and
  \<open>handleUnplugMouseDown\<close> (the unplug handle of a connection starts a drag in reconnect
  mode, which carries the identifier of that connection).
\<close>

definition handleSocketMouseDown :: "MouseEvent \<Rightarrow> string \<Rightarrow> bool \<Rightarrow> CanvasState \<Rightarrow> CanvasState" where
  "handleSocketMouseDown e nid isOutput s =
     (if isOutput
      then s\<lparr> dragLine := Some \<lparr> dl_sourceId = nid, dl_currentX = clientX e,
                                 dl_currentY = clientY e, isReconnectingId = None \<rparr> \<rparr>
      else s)"

definition handleUnplugMouseDown :: "MouseEvent \<Rightarrow> FlowConnection \<Rightarrow> CanvasState \<Rightarrow> CanvasState" where
  "handleUnplugMouseDown e conn s =
     s\<lparr> dragLine := Some \<lparr> dl_sourceId = sourceId conn, dl_currentX = clientX e,
                            dl_currentY = clientY e, isReconnectingId = Some (id_conn conn) \<rparr> \<rparr>"

text \<open>
  \<open>handleSocketMouseUp\<close>, the only place where a connection is added. The argument
  \<open>now\<close> is the reading of \<open>Date.now()\<close>. The field \<open>isReconnectingId\<close> of the drag is
  not read here.
\<close>

definition handleSocketMouseUp :: "nat \<Rightarrow> MouseEvent \<Rightarrow> string \<Rightarrow> bool \<Rightarrow> CanvasState \<Rightarrow> CanvasState" where
  "handleSocketMouseUp now e nid isInput s =
     (case dragLine s of
        None \<Rightarrow> s
      | Some d \<Rightarrow>
          if isInput \<and> dl_sourceId d \<noteq> nid then
            (let src = dl_sourceId d;
                 tgt = nid;
                 exists = list_ex (\<lambda>c. sourceId c = src \<and> targetId c = tgt) (connections s);
                 s1 = (if \<not> exists then
                         (let newConn = \<lparr> id_conn = ''conn-'' @ showNat now, sourceId = src,
                                          targetId = tgt, label = Some [] \<rparr>;
                              newConns = connections s @ [newConn]
                          in s\<lparr> connections := newConns,
                                onUpdate_log := onUpdate_log s @ [((positions s, nanPositions s), newConns)] \<rparr>)
                       else s)
             in s1\<lparr> dragLine := None \<rparr>)
          else s)"

text \<open>
  \<open>handleMouseUp\<close>, the handler of the container. The reads of one handler run see the
  state as it was when the event arrived; the cells written below are pairwise different from
  the cells read after them, so threading the state gives the same result.
\<close>

definition handleMouseUp :: "MouseEvent \<Rightarrow> CanvasState \<Rightarrow> CanvasState" where
  "handleMouseUp e s =
     (let s1 = (if isPanning s then s\<lparr> isPanning := False \<rparr> else s);
          s2 = (if truthy (draggingNodeId s)
                then s1\<lparr> draggingNodeId := None,
                         onUpdate_log := onUpdate_log s1 @ [((positions s, nanPositions s), connections s)] \<rparr>
                else s1);
          s3 = (if selectionRect s \<noteq> None then s2\<lparr> selectionRect := None \<rparr> else s2)
      in case dragLine s of
           None \<Rightarrow> s3
         | Some d \<Rightarrow>
             (let s4 = (case isReconnectingId d of
                          None \<Rightarrow> s3
                        | Some rid \<Rightarrow> if rid \<noteq> [] then removeConnection rid s3 else s3)
              in s4\<lparr> dragLine := None \<rparr>))"

text \<open>
  Where a released pointer is delivered. The input socket of a node has its own handler,
  which stops the propagation of the event before anything else, so the handler of the
  container does not run for that event; a release over the empty canvas reaches the
  handler of the container only.
\<close>

datatype ReleaseTarget = OverCanvas | OverInputSocket string

fun pointerRelease :: "nat \<Rightarrow> MouseEvent \<Rightarrow> ReleaseTarget \<Rightarrow> CanvasState \<Rightarrow> CanvasState" where
  "pointerRelease now e OverCanvas s = handleMouseUp e s"
| "pointerRelease now e (OverInputSocket nid) s = handleSocketMouseUp now e nid True s"

section \<open>Node layout store\<close>

text \<open>
  The effect that runs when the node list changes (\<open>ensurePositions\<close> in the
  specification): a copy of the position object is filled in index order, and stored and
  reported only if some entry was added. The test \<open>!newPositions[pz.id]\<close> fails, and
  nothing is written, when the key has an own entry (with numbers or with \<open>NaN\<close>) and
  also when it names an inherited member.
\<close>

definition gridPosition :: "nat \<Rightarrow> NodePosition" where
  "gridPosition idx = \<lparr> pos_x = 100 + real (idx mod 3) * 350,
                         pos_y = 100 + real (idx div 3) * 250 \<rparr>"

definition ensureStep :: "string set \<Rightarrow> nat \<times> PuzzleDefinition \<Rightarrow> Positions \<times> bool \<Rightarrow> Positions \<times> bool" where
  "ensureStep nan ip acc =
     (case fst acc (id_pz (snd ip)) of
        None \<Rightarrow>
          if id_pz (snd ip) \<in> nan \<or> id_pz (snd ip) \<in> set objectPrototypeKeys
          then acc
          else ((fst acc)(id_pz (snd ip) \<mapsto> gridPosition (fst ip)), True)
      | Some _ \<Rightarrow> acc)"


section \<open>Pointer handlers of the container and of a node\<close>

text \<open>
  \<open>handleMouseDown\<close>. The optional node identifier is tested for truthiness; the
  bounding rectangle of the container is absent when the element reference is not set.
\<close>

definition handleMouseDown :: "MouseEvent \<Rightarrow> string option \<Rightarrow> DOMRect option \<Rightarrow> CanvasState \<Rightarrow> CanvasState" where
  "handleMouseDown e nodeId containerRect s =
     (if button e = 1
      then s\<lparr> isPanning := True, lastMousePos := \<lparr> m_x = clientX e, m_y = clientY e \<rparr> \<rparr>
      else
        (case (if truthy nodeId then nodeId else None) of
           Some nid \<Rightarrow>
             if in_socket e then s
             else if in_controls e then s
             else
               (let s1 = s\<lparr> draggingNodeId := Some nid \<rparr>;
                    s2 = (if nid \<notin> set (selectedNodeIds s)
                          then s1\<lparr> selectedNodeIds := [nid] \<rparr> else s1)
                in s2\<lparr> lastMousePos := \<lparr> m_x = clientX e, m_y = clientY e \<rparr> \<rparr>)
         | None \<Rightarrow>
             (case containerRect of
                Some rect \<Rightarrow>
                  s\<lparr> selectionRect := Some \<lparr> startX = clientX e, startY = clientY e,
                                               currentX = clientX e, currentY = clientY e \<rparr>,
                     selectedNodeIds := [] \<rparr>
              | None \<Rightarrow> s)))"

text \<open>
  The batch move of the selected nodes: each write reads the old object \<open>prev\<close>. The
  test \<open>if (currentPos)\<close> on \<open>prev[nodeId]\<close> succeeds for an own entry and for an inherited
  member. For an own entry with numbers the moved position is written. For an own entry
  with \<open>NaN\<close> and for an inherited function the sums are \<open>NaN\<close>, and the write keeps or
  creates the own entry \<open>{x: NaN, y: NaN}\<close>. Under the inherited accessor \<open>__proto__\<close> the
  write runs the setter, which replaces the prototype of the copy by \<open>{x: NaN, y: NaN}\<close> and
  creates no entry; the only members that this adds behind the object are \<open>x\<close> and \<open>y\<close>
  with the falsy value \<open>NaN\<close>, so no read of the handlers can tell the difference.
\<close>

definition moveStep :: "Positions \<Rightarrow> string set \<Rightarrow> real \<Rightarrow> real \<Rightarrow> real \<Rightarrow> string \<Rightarrow> Positions \<times> string set \<Rightarrow> Positions \<times> string set" where
  "moveStep prev prevNaN dx dy scale nodeId next =
     (case prev nodeId of
        Some currentPos \<Rightarrow>
          ((fst next)(nodeId \<mapsto> \<lparr> pos_x = pos_x currentPos + dx / scale,
                                   pos_y = pos_y currentPos + dy / scale \<rparr>), snd next)
      | None \<Rightarrow>
          if nodeId \<in> prevNaN \<or> nodeId \<in> set objectPrototypeDataKeys
          then (fst next, insert nodeId (snd next))
          else next)"

definition movePositions :: "string list \<Rightarrow> real \<Rightarrow> real \<Rightarrow> real \<Rightarrow> Positions \<times> string set \<Rightarrow> Positions \<times> string set" where
  "movePositions ids dx dy scale prev =
     fold (moveStep (fst prev) (snd prev) dx dy scale) ids prev"


text \<open>
  The collapsed state of a node as the component reads it, \<open>collapsedNodes[id]\<close>, for the
  card it draws (\<open>isCollapsed\<close>) and for the marquee filter: the own entry if there is one,
  and truthy without an own entry when the key names an inherited member.
  \<open>toggleCollapse\<close> writes the negation of this reading as an own entry.
\<close>

definition isCollapsed :: "(string \<rightharpoonup> bool) \<Rightarrow> string \<Rightarrow> bool" where
  "isCollapsed collapsed nid =
     (case collapsed nid of Some b \<Rightarrow> b | None \<Rightarrow> nid \<in> set objectPrototypeKeys)"

definition toggleCollapse :: "string \<Rightarrow> MouseEvent \<Rightarrow> CanvasState \<Rightarrow> CanvasState" where
  "toggleCollapse nid e s =
     s\<lparr> collapsedNodes := (collapsedNodes s)(nid \<mapsto> \<not> isCollapsed (collapsedNodes s) nid) \<rparr>"

text \<open>
  The test of the marquee filter for one node. A key without an own entry with numbers is
  never hit: the read is \<open>undefined\<close> and the filter returns false, or it is an inherited
  member or a \<open>NaN\<close> entry, the projected coordinates are \<open>NaN\<close> and all four comparisons
  are false.
\<close>

definition marqueeHit :: "CanvasState \<Rightarrow> DOMRect \<Rightarrow> SelectionRect \<Rightarrow> MouseEvent \<Rightarrow> PuzzleDefinition \<Rightarrow> bool" where
  "marqueeHit s rect sr e pz =
     (let newX1 = min (startX sr) (clientX e);
          newY1 = min (startY sr) (clientY e);
          newX2 = max (startX sr) (clientX e);
          newY2 = max (startY sr) (clientY e)
      in case positions s (id_pz pz) of
           None \<Rightarrow> False
         | Some pos \<Rightarrow>
             (let screenX = pos_x pos * t_scale (transform s) + t_x (transform s) + rect_left rect;
                  screenY = pos_y pos * t_scale (transform s) + t_y (transform s) + rect_top rect;
                  screenW = 280 * t_scale (transform s);
                  screenH = (if isCollapsed (collapsedNodes s) (id_pz pz) then 100 else 250)
                              * t_scale (transform s)
              in screenX < newX2 \<and> screenX + screenW > newX1 \<and>
                 screenY < newY2 \<and> screenY + screenH > newY1))"

definition handleMouseMove :: "MouseEvent \<Rightarrow> DOMRect option \<Rightarrow> PuzzleDefinition list \<Rightarrow> CanvasState \<Rightarrow> CanvasState" where
  "handleMouseMove e containerRect puzzles s =
     (let dx = clientX e - m_x (lastMousePos s);
          dy = clientY e - m_y (lastMousePos s);
          s1 = (if isPanning s
                then s\<lparr> transform := (transform s)\<lparr> t_x := t_x (transform s) + dx,
                                                    t_y := t_y (transform s) + dy \<rparr> \<rparr>
                else if truthy (draggingNodeId s)
                then (let next = movePositions (selectedNodeIds s) dx dy
                                   (t_scale (transform s)) (positions s, nanPositions s)
                      in s\<lparr> positions := fst next, nanPositions := snd next \<rparr>)
                else
                  (case selectionRect s of
                     None \<Rightarrow> s
                   | Some sr \<Rightarrow>
                       (let s' = s\<lparr> selectionRect :=
                                     Some (sr\<lparr> currentX := clientX e, currentY := clientY e \<rparr>) \<rparr>
                        in case containerRect of
                             None \<Rightarrow> s'
                           | Some rect \<Rightarrow>
                               s'\<lparr> selectedNodeIds :=
                                     map id_pz (filter (marqueeHit s rect sr e) puzzles) \<rparr>)));
          s2 = (case dragLine s of
                  None \<Rightarrow> s1
                | Some d \<Rightarrow> s1\<lparr> dragLine := Some (d\<lparr> dl_currentX := clientX e,
                                                       dl_currentY := clientY e \<rparr>) \<rparr>)
      in s2\<lparr> lastMousePos := \<lparr> m_x = clientX e, m_y = clientY e \<rparr> \<rparr>)"

section \<open>Zoom\<close>

record WheelEvent =
  deltaY :: real
  w_clientX :: real
  w_clientY :: real

definition handleWheel :: "WheelEvent \<Rightarrow> DOMRect option \<Rightarrow> CanvasState \<Rightarrow> CanvasState" where
  "handleWheel e containerRect s =
     (let zoomSpeed = 0.001;
          delta = - deltaY e * zoomSpeed;
          newScale = min (max (t_scale (transform s) + delta) 0.1) 5
      in case containerRect of
           None \<Rightarrow> s
         | Some rect \<Rightarrow>
             (let mouseX = w_clientX e - rect_left rect;
                  mouseY = w_clientY e - rect_top rect;
                  canvasX = (mouseX - t_x (transform s)) / t_scale (transform s);
                  canvasY = (mouseY - t_y (transform s)) / t_scale (transform s);
                  nextX = mouseX - canvasX * newScale;
                  nextY = mouseY - canvasY * newScale
              in s\<lparr> transform := \<lparr> t_x = nextX, t_y = nextY, t_scale = newScale \<rparr> \<rparr>))"

section \<open>Coordinate transform and the connection gesture\<close>

text \<open>
  The two coordinate maps, in coordinates relative to the container. The component has no
  function of either name: \<open>worldToScreen\<close> is the projection that the marquee filter
  computes for a node position (before it adds the origin of the container), and
  \<open>screenToWorld\<close> is what \<open>handleWheel\<close> computes as \<open>canvasX\<close>, \<open>canvasY\<close> from
  the cursor (and the preview of a dragged connection from its free end).
\<close>

definition worldToScreen :: "Transform \<Rightarrow> NodePosition \<Rightarrow> MousePos" where
  "worldToScreen t p = \<lparr> m_x = pos_x p * t_scale t + t_x t, m_y = pos_y p * t_scale t + t_y t \<rparr>"

definition screenToWorld :: "Transform \<Rightarrow> MousePos \<Rightarrow> NodePosition" where
  "screenToWorld t m = \<lparr> pos_x = (m_x m - t_x t) / t_scale t, pos_y = (m_y m - t_y t) / t_scale t \<rparr>"

text \<open>
  Adding a connection from \<open>a\<close> to \<open>b\<close> is one gesture: press on the output socket of
  \<open>a\<close>, release on the input socket of \<open>b\<close>.
\<close>

definition connectGesture :: "nat \<Rightarrow> MouseEvent \<Rightarrow> MouseEvent \<Rightarrow> string \<Rightarrow> string \<Rightarrow> CanvasState \<Rightarrow> CanvasState" where
  "connectGesture now e1 e2 a b s =
     pointerRelease now e2 (OverInputSocket b) (handleSocketMouseDown e1 a True s)"

section \<open>Concrete canvases\<close>

text \<open>Two labelled connections \<open>a \<rightarrow> b\<close> and \<open>b \<rightarrow> c\<close> on an otherwise fresh canvas.\<close>

definition exConnAB :: FlowConnection where
  "exConnAB = \<lparr> id_conn = ''c1'', sourceId = ''a'', targetId = ''b'', label = Some ''opens'' \<rparr>"

definition exConnBC :: FlowConnection where
  "exConnBC = \<lparr> id_conn = ''c2'', sourceId = ''b'', targetId = ''c'', label = None \<rparr>"

definition exState :: CanvasState where
  "exState = initialState (Some (Map.empty, [exConnAB, exConnBC]))"

text \<open>A pointer event at client position (104, 110), on no socket and no control.\<close>

definition exEvent :: MouseEvent where
  "exEvent = \<lparr> button = 0, clientX = 104, clientY = 110, in_socket = False, in_controls = False \<rparr>"

text \<open>
  Three placed nodes \<open>A\<close>, \<open>B\<close>, \<open>C\<close>; \<open>A\<close>, \<open>B\<close> and an identifier \<open>Z\<close> without a
  position are selected, \<open>A\<close> is being dragged at scale 2, the pointer was last seen at
  (100, 100).
\<close>

definition exPositions :: Positions where
  "exPositions = [''A'' \<mapsto> \<lparr> pos_x = 0, pos_y = 0 \<rparr>,
                  ''B'' \<mapsto> \<lparr> pos_x = 10, pos_y = 20 \<rparr>,
                  ''C'' \<mapsto> \<lparr> pos_x = 5, pos_y = 5 \<rparr>]"

definition exDragState :: CanvasState where
  "exDragState = (initialState (Some (exPositions, [])))
     \<lparr> transform := \<lparr> t_x = 0, t_y = 0, t_scale = 2 \<rparr>,
       lastMousePos := \<lparr> m_x = 100, m_y = 100 \<rparr>,
       selectedNodeIds := [''A'', ''B'', ''Z''],
       draggingNodeId := Some ''A'' \<rparr>"

text \<open>
  A marquee from (50, 50) to (400, 400) at scale 1 over three nodes: the card of \<open>A\<close>
  (100..380 by 100..350) lies inside, the collapsed card of \<open>B\<close> (300..580 by 300..400)
  overlaps the border, the card of \<open>C\<close> starts at (1000, 1000). Before the move only \<open>C\<close>
  is selected.
\<close>

definition exPuzzles :: "PuzzleDefinition list" where
  "exPuzzles = [\<lparr> id_pz = ''A'', name_pz = ''first'' \<rparr>,
                \<lparr> id_pz = ''B'', name_pz = ''second'' \<rparr>,
                \<lparr> id_pz = ''C'', name_pz = ''third'' \<rparr>]"

definition exMarqueePositions :: Positions where
  "exMarqueePositions = [''A'' \<mapsto> \<lparr> pos_x = 100, pos_y = 100 \<rparr>,
                         ''B'' \<mapsto> \<lparr> pos_x = 300, pos_y = 300 \<rparr>,
                         ''C'' \<mapsto> \<lparr> pos_x = 1000, pos_y = 1000 \<rparr>]"

definition exMarquee :: SelectionRect where
  "exMarquee = \<lparr> startX = 50, startY = 50, currentX = 60, currentY = 60 \<rparr>"

definition exMarqueeState :: CanvasState where
  "exMarqueeState = (initialState (Some (exMarqueePositions, [])))
     \<lparr> selectedNodeIds := [''C''],
       selectionRect := Some exMarquee,
       collapsedNodes := [''B'' \<mapsto> True] \<rparr>"

definition exMarqueeEvent :: MouseEvent where
  "exMarqueeEvent = \<lparr> button = 0, clientX = 400, clientY = 400,
                       in_socket = False, in_controls = False \<rparr>"

definition exRect :: DOMRect where
  "exRect = \<lparr> rect_left = 0, rect_top = 0, rect_width = 1200, rect_height = 800 \<rparr>"




text \<open>
  Node \<open>A\<close> at world position (7, 9) under pan (30, -20) and scale 1/2, in a container
  whose origin is at client position (10, 20); a wheel event with the cursor on the projected
  corner of \<open>A\<close>, at client position (43.5, 4.5).
\<close>

definition exZoomState :: CanvasState where
  "exZoomState =
     (initialState (Some ([''A'' \<mapsto> \<lparr> pos_x = 7, pos_y = 9 \<rparr>], [])))
     \<lparr> transform := \<lparr> t_x = 30, t_y = - 20, t_scale = 1 / 2 \<rparr> \<rparr>"

definition exZoomRect :: DOMRect where
  "exZoomRect = \<lparr> rect_left = 10, rect_top = 20, rect_width = 1200, rect_height = 800 \<rparr>"

definition exWheel :: WheelEvent where
  "exWheel = \<lparr> deltaY = - 500, w_clientX = 87 / 2, w_clientY = 9 / 2 \<rparr>"

text \<open>
  A node named \<open>toString\<close> at the world origin, never toggled, at scale 1, under a marquee
  anchored at (0, 150) whose pointer moves to (100, 200).
\<close>

definition exToStringNodes :: "PuzzleDefinition list" where
  "exToStringNodes = [\<lparr> id_pz = ''toString'', name_pz = ''fourth'' \<rparr>]"

definition exToStringState :: CanvasState where
  "exToStringState =
     (initialState (Some ([''toString'' \<mapsto> \<lparr> pos_x = 0, pos_y = 0 \<rparr>], [])))
     \<lparr> selectionRect := Some \<lparr> startX = 0, startY = 150, currentX = 0, currentY = 150 \<rparr> \<rparr>"

definition exToStringEvent :: MouseEvent where
  "exToStringEvent = \<lparr> button = 0, clientX = 100, clientY = 200,
                        in_socket = False, in_controls = False \<rparr>"

section \<open>Properties of the connection store\<close>

lemma connections_removeConnection:
  "connections (removeConnection cid s) = filter (\<lambda>c. id_conn c \<noteq> cid) (connections s)"
  by (simp add: removeConnection_def Let_def)

lemma connections_updateConnectionLabel:
  "connections (updateConnectionLabel cid lbl s) =
     map (\<lambda>c. if id_conn c = cid then c\<lparr> label := Some lbl \<rparr> else c) (connections s)"
  by (simp add: updateConnectionLabel_def Let_def)

lemma filter_absent_id:
  "cid \<notin> id_conn ` set cs \<Longrightarrow> filter (\<lambda>c. id_conn c \<noteq> cid) cs = cs"
  by (induction cs) auto

lemma map_absent_id:
  "cid \<notin> id_conn ` set cs \<Longrightarrow>
   map (\<lambda>c. if id_conn c = cid then c\<lparr> label := Some lbl \<rparr> else c) cs = cs"
  by (induction cs) auto

text \<open>
  Claim C9. For an identifier that no connection carries, \<open>removeConnection\<close> and
  \<open>updateConnectionLabel\<close> leave the connection list as it is (both functions are total:
  nothing is raised). For an identifier carried by the connection \<open>c\<close> of a list with
  distinct identifiers, \<open>removeConnection\<close> deletes \<open>c\<close> and keeps every other connection
  in place, and \<open>updateConnectionLabel\<close> replaces \<open>c\<close> by a connection with the new label
  and the identifier, source and target of \<open>c\<close>, keeping every other connection in place.
\<close>

theorem remove_relabel_by_id:
  "(cid \<notin> id_conn ` set (connections s) \<longrightarrow>
      connections (removeConnection cid s) = connections s \<and>
      connections (updateConnectionLabel cid lbl s) = connections s) \<and>
   (connections s = xs @ c # ys \<and> id_conn c = cid \<and> distinct (map id_conn (connections s)) \<longrightarrow>
      connections (removeConnection cid s) = xs @ ys \<and>
      (\<exists>c'. connections (updateConnectionLabel cid lbl s) = xs @ c' # ys \<and>
            label c' = Some lbl \<and> id_conn c' = id_conn c \<and>
            sourceId c' = sourceId c \<and> targetId c' = targetId c))"
proof (intro conjI impI)
  assume absent: "cid \<notin> id_conn ` set (connections s)"
  show "connections (removeConnection cid s) = connections s"
    using filter_absent_id [OF absent] by (simp add: connections_removeConnection)
  show "connections (updateConnectionLabel cid lbl s) = connections s"
    using map_absent_id [OF absent] by (simp add: connections_updateConnectionLabel)
next
  assume present: "connections s = xs @ c # ys \<and> id_conn c = cid \<and>
                   distinct (map id_conn (connections s))"
  then have split: "connections s = xs @ c # ys" and c: "id_conn c = cid" by simp_all
  from present have "cid \<notin> id_conn ` set xs" and "cid \<notin> id_conn ` set ys"
    by auto
  then have fx: "filter (\<lambda>c. id_conn c \<noteq> cid) xs = xs"
    and fy: "filter (\<lambda>c. id_conn c \<noteq> cid) ys = ys"
    and mx: "map (\<lambda>c. if id_conn c = cid then c\<lparr> label := Some lbl \<rparr> else c) xs = xs"
    and my: "map (\<lambda>c. if id_conn c = cid then c\<lparr> label := Some lbl \<rparr> else c) ys = ys"
    by (simp_all add: filter_absent_id map_absent_id)
  show "connections (removeConnection cid s) = xs @ ys"
    using fx fy by (simp add: connections_removeConnection split c)
  have "connections (updateConnectionLabel cid lbl s) = xs @ c\<lparr> label := Some lbl \<rparr> # ys"
    using mx my by (simp add: connections_updateConnectionLabel split c)
  then show "\<exists>c'. connections (updateConnectionLabel cid lbl s) = xs @ c' # ys \<and>
            label c' = Some lbl \<and> id_conn c' = id_conn c \<and>
            sourceId c' = sourceId c \<and> targetId c' = targetId c"
    by (intro exI [of _ "c\<lparr> label := Some lbl \<rparr>"]) simp
qed

theorem remove_relabel_by_id_witness:
  "''c9'' \<notin> id_conn ` set (connections exState) \<and>
   connections (removeConnection ''c9'' exState) = [exConnAB, exConnBC] \<and>
   connections (updateConnectionLabel ''c9'' ''new'' exState) = [exConnAB, exConnBC] \<and>
   distinct (map id_conn (connections exState)) \<and>
   connections (removeConnection ''c2'' exState) = [exConnAB] \<and>
   (\<exists>c'. connections (updateConnectionLabel ''c2'' ''new'' exState) = [exConnAB, c'] \<and>
         label c' = Some ''new'' \<and> id_conn c' = ''c2'' \<and>
         sourceId c' = ''b'' \<and> targetId c' = ''c'')"
proof -
  have conns: "connections exState = [exConnAB] @ exConnBC # []"
    by (simp add: exState_def initialState_def)
  have absent: "''c9'' \<notin> id_conn ` set (connections exState)"
    by (simp add: conns exConnAB_def exConnBC_def)
  have present: "id_conn exConnBC = ''c2''" "distinct (map id_conn (connections exState))"
    by (simp_all add: conns exConnAB_def exConnBC_def)
  from remove_relabel_by_id [of "''c9''" exState "''new''" "[]" exConnAB "[]"] absent
  have a: "connections (removeConnection ''c9'' exState) = [exConnAB, exConnBC]"
    "connections (updateConnectionLabel ''c9'' ''new'' exState) = [exConnAB, exConnBC]"
    by (simp_all add: conns)
  from remove_relabel_by_id [of "''c2''" exState "''new''" "[exConnAB]" exConnBC "[]"]
    conns present
  have p: "connections (removeConnection ''c2'' exState) = [exConnAB]"
    "\<exists>c'. connections (updateConnectionLabel ''c2'' ''new'' exState) = [exConnAB, c'] \<and>
         label c' = Some ''new'' \<and> id_conn c' = ''c2'' \<and>
         sourceId c' = ''b'' \<and> targetId c' = ''c''"
    by (simp_all add: exConnBC_def)
  from absent present a p show ?thesis by blast
qed

section \<open>Node drag\<close>

lemma fold_moveStep_fst:
  "fst (fold (moveStep prev prevNaN dx dy sc) ids acc) k =
     (if k \<in> set ids \<and> prev k \<noteq> None
      then Some \<lparr> pos_x = pos_x (the (prev k)) + dx / sc, pos_y = pos_y (the (prev k)) + dy / sc \<rparr>
      else fst acc k)"
  by (induction ids arbitrary: acc) (auto simp: moveStep_def split: option.splits)


lemma movePositions_lookup:
  "fst (movePositions ids dx dy sc (prev, prevNaN)) k =
     (case prev k of
        None \<Rightarrow> None
      | Some p \<Rightarrow> if k \<in> set ids
                  then Some \<lparr> pos_x = pos_x p + dx / sc, pos_y = pos_y p + dy / sc \<rparr>
                  else Some p)"
  by (simp add: movePositions_def fold_moveStep_fst split: option.splits)



lemma positions_handleMouseMove_drag:
  "\<not> isPanning s \<Longrightarrow> truthy (draggingNodeId s) \<Longrightarrow>
   positions (handleMouseMove e r pzs s) =
     fst (movePositions (selectedNodeIds s) (clientX e - m_x (lastMousePos s))
        (clientY e - m_y (lastMousePos s)) (t_scale (transform s))
        (positions s, nanPositions s))"
  by (simp add: handleMouseMove_def Let_def split: option.splits)






text \<open>
  Claim C7. On a pointer move of an active node drag (not panning, a node being dragged)
  with screen delta \<open>(dx, dy)\<close> from the last pointer position, every selected identifier
  with a position entry is moved by exactly \<open>(dx / scale, dy / scale)\<close>, and the entry of
  every identifier outside the selection is unchanged. The scale is assumed non-zero, since
  a division by zero is not the same in HOL and in JavaScript.
\<close>

theorem batch_drag_frame:
  assumes "\<not> isPanning s" and "truthy (draggingNodeId s)"
    and "t_scale (transform s) \<noteq> 0"
    and "dx = clientX e - m_x (lastMousePos s)" and "dy = clientY e - m_y (lastMousePos s)"
  shows "(k \<in> set (selectedNodeIds s) \<and> positions s k = Some p \<longrightarrow>
            positions (handleMouseMove e containerRect puzzles s) k =
              Some \<lparr> pos_x = pos_x p + dx / t_scale (transform s),
                     pos_y = pos_y p + dy / t_scale (transform s) \<rparr>) \<and>
         (k \<notin> set (selectedNodeIds s) \<longrightarrow>
            positions (handleMouseMove e containerRect puzzles s) k = positions s k)"
  using assms
  by (simp add: positions_handleMouseMove_drag movePositions_lookup split: option.splits)

lemma exDrag_facts:
  "\<not> isPanning exDragState" "truthy (draggingNodeId exDragState)"
  "t_scale (transform exDragState) \<noteq> 0"
  "(4::real) = clientX exEvent - m_x (lastMousePos exDragState)"
  "(10::real) = clientY exEvent - m_y (lastMousePos exDragState)"
  "selectedNodeIds exDragState = [''A'', ''B'', ''Z'']"
  "positions exDragState = exPositions"
  by (simp_all add: exDragState_def initialState_def truthy_def exEvent_def)

theorem batch_drag_frame_witness:
  "positions (handleMouseMove exEvent None exPuzzles exDragState) ''A'' = Some \<lparr> pos_x = 2, pos_y = 5 \<rparr> \<and>
   positions (handleMouseMove exEvent None exPuzzles exDragState) ''B'' = Some \<lparr> pos_x = 12, pos_y = 25 \<rparr> \<and>
   positions (handleMouseMove exEvent None exPuzzles exDragState) ''C'' = Some \<lparr> pos_x = 5, pos_y = 5 \<rparr>"
proof -
  have A: "''A'' \<in> set (selectedNodeIds exDragState) \<and> positions exDragState ''A'' = Some \<lparr> pos_x = 0, pos_y = 0 \<rparr>"
    and B: "''B'' \<in> set (selectedNodeIds exDragState) \<and> positions exDragState ''B'' = Some \<lparr> pos_x = 10, pos_y = 20 \<rparr>"
    and C: "''C'' \<notin> set (selectedNodeIds exDragState)" "positions exDragState ''C'' = Some \<lparr> pos_x = 5, pos_y = 5 \<rparr>"
    by (simp_all add: exDrag_facts exPositions_def)
  note inst = batch_drag_frame [OF exDrag_facts(1-5), of _ _ None exPuzzles]
  from inst [of "''A''" "\<lparr> pos_x = 0, pos_y = 0 \<rparr>"] A
  have a: "positions (handleMouseMove exEvent None exPuzzles exDragState) ''A'' = Some \<lparr> pos_x = 2, pos_y = 5 \<rparr>"
    by (simp add: exDrag_facts(6,7) exDragState_def initialState_def)
  from inst [of "''B''" "\<lparr> pos_x = 10, pos_y = 20 \<rparr>"] B
  have b: "positions (handleMouseMove exEvent None exPuzzles exDragState) ''B'' = Some \<lparr> pos_x = 12, pos_y = 25 \<rparr>"
    by (simp add: exDrag_facts(6,7) exDragState_def initialState_def)
  from inst [of "''C''" "\<lparr> pos_x = 5, pos_y = 5 \<rparr>"] C
  have c: "positions (handleMouseMove exEvent None exPuzzles exDragState) ''C'' = Some \<lparr> pos_x = 5, pos_y = 5 \<rparr>"
    by simp
  from a b c show ?thesis by simp
qed

section \<open>Selection\<close>

text \<open>
  Claim C8. A pointer-down on the body of a node (not the pan button, the target outside
  the socket and control elements, the identifier a non-empty string, as every generated
  identifier is) selects exactly that node when it was not selected, and keeps the whole
  selection when it was; in both cases the node becomes the dragged node.
\<close>

theorem single_click_selection:
  assumes "button e \<noteq> 1" and "nid \<noteq> []" and "\<not> in_socket e" and "\<not> in_controls e"
  shows "(nid \<notin> set (selectedNodeIds s) \<longrightarrow>
            selectedNodeIds (handleMouseDown e (Some nid) containerRect s) = [nid]) \<and>
         (nid \<in> set (selectedNodeIds s) \<longrightarrow>
            selectedNodeIds (handleMouseDown e (Some nid) containerRect s) = selectedNodeIds s) \<and>
         draggingNodeId (handleMouseDown e (Some nid) containerRect s) = Some nid"
  using assms by (simp add: handleMouseDown_def truthy_def Let_def)

lemma exEvent_body: "button exEvent \<noteq> 1" "\<not> in_socket exEvent" "\<not> in_controls exEvent"
  by (simp_all add: exEvent_def)

theorem single_click_selection_witness:
  "selectedNodeIds (handleMouseDown exEvent (Some ''C'') None exDragState) = [''C''] \<and>
   selectedNodeIds (handleMouseDown exEvent (Some ''B'') None exDragState) = [''A'', ''B'', ''Z'']"
proof -
  have sel: "selectedNodeIds exDragState = [''A'', ''B'', ''Z'']"
    by (simp add: exDragState_def initialState_def)
  have "''C'' \<noteq> []" and "''B'' \<noteq> []" by simp_all
  note c = single_click_selection [OF exEvent_body(1) \<open>''C'' \<noteq> []\<close> exEvent_body(2,3), of exDragState None]
  note b = single_click_selection [OF exEvent_body(1) \<open>''B'' \<noteq> []\<close> exEvent_body(2,3), of exDragState None]
  from c b show ?thesis by (simp add: sel)
qed

lemma selected_handleMouseMove_marquee:
  "\<not> isPanning s \<Longrightarrow> \<not> truthy (draggingNodeId s) \<Longrightarrow> selectionRect s = Some sr \<Longrightarrow>
   selectedNodeIds (handleMouseMove e (Some rect) puzzles s) =
     map id_pz (filter (marqueeHit s rect sr e) puzzles)"
  by (simp add: handleMouseMove_def Let_def split: option.splits)

text \<open>
  The reading \<open>isCollapsed\<close> spelled out, and its change by \<open>toggleCollapse\<close>, which
  flips it for the toggled node and leaves it for every other node.
\<close>

lemma isCollapsed_iff:
  "isCollapsed collapsed nid \<longleftrightarrow>
     collapsed nid = Some True \<or> (collapsed nid = None \<and> nid \<in> set objectPrototypeKeys)"
  by (cases "collapsed nid") (simp_all add: isCollapsed_def)

lemma isCollapsed_toggleCollapse:
  "isCollapsed (collapsedNodes (toggleCollapse nid e s)) k =
     (if k = nid then \<not> isCollapsed (collapsedNodes s) nid else isCollapsed (collapsedNodes s) k)"
  by (simp add: toggleCollapse_def isCollapsed_def)



lemma exMarquee_facts:
  "\<not> isPanning exMarqueeState" "\<not> truthy (draggingNodeId exMarqueeState)"
  "selectionRect exMarqueeState = Some exMarquee"
  "(50::real) = min (startX exMarquee) (clientX exMarqueeEvent)"
  "(400::real) = max (startX exMarquee) (clientX exMarqueeEvent)"
  "(50::real) = min (startY exMarquee) (clientY exMarqueeEvent)"
  "(400::real) = max (startY exMarquee) (clientY exMarqueeEvent)"
  "(1::real) = t_scale (transform exMarqueeState)"
  by (simp_all add: exMarqueeState_def initialState_def truthy_def exMarquee_def
      exMarqueeEvent_def)

lemma exMarquee_fields:
  "positions exMarqueeState = exMarqueePositions"
  "isCollapsed (collapsedNodes exMarqueeState) ''A'' = False"
  "isCollapsed (collapsedNodes exMarqueeState) ''B'' = True"
  "isCollapsed (collapsedNodes exMarqueeState) ''C'' = False"
  "t_x (transform exMarqueeState) = 0" "t_y (transform exMarqueeState) = 0"
  "selectedNodeIds exMarqueeState = [''C'']"
  "t_scale (transform exMarqueeState) = 1"
  by (simp_all add: exMarqueeState_def initialState_def isCollapsed_def
      objectPrototypeKeys_def objectPrototypeDataKeys_def)


text \<open>The scenario as a list: \<open>A\<close> inside and \<open>B\<close> overlapping are selected, \<open>C\<close> is dropped.\<close>

lemma marquee_example_list:
  "selectedNodeIds (handleMouseMove exMarqueeEvent (Some exRect) exPuzzles exMarqueeState) = [''A'', ''B'']"
  by (simp add: selected_handleMouseMove_marquee [OF exMarquee_facts(1-3)] marqueeHit_def Let_def
      exMarquee_fields exMarqueePositions_def exPuzzles_def exRect_def exMarquee_def exMarqueeEvent_def)

text \<open>
  A node named \<open>toString\<close> that was never toggled is read as collapsed, for the card and
  for the marquee alike: a marquee over the rows 150 to 200 misses its card of height 100.
  After one \<open>toggleCollapse\<close> it is read as expanded and the same marquee selects it.
\<close>

lemma marquee_inherited_name_example:
  "selectedNodeIds (handleMouseMove exToStringEvent (Some exRect) exToStringNodes
      exToStringState) = [] \<and>
   selectedNodeIds (handleMouseMove exToStringEvent (Some exRect) exToStringNodes
      (toggleCollapse ''toString'' exEvent exToStringState)) = [''toString'']"
proof -
  have inh: "''toString'' \<in> set objectPrototypeKeys"
    by (simp add: objectPrototypeKeys_def objectPrototypeDataKeys_def)
  have mode: "\<not> isPanning exToStringState" "\<not> truthy (draggingNodeId exToStringState)"
    "selectionRect exToStringState =
       Some \<lparr> startX = 0, startY = 150, currentX = 0, currentY = 150 \<rparr>"
    by (simp_all add: exToStringState_def initialState_def truthy_def)
  have mode': "\<not> isPanning (toggleCollapse ''toString'' exEvent exToStringState)"
    "\<not> truthy (draggingNodeId (toggleCollapse ''toString'' exEvent exToStringState))"
    "selectionRect (toggleCollapse ''toString'' exEvent exToStringState) =
       Some \<lparr> startX = 0, startY = 150, currentX = 0, currentY = 150 \<rparr>"
    by (simp_all add: toggleCollapse_def mode)
  have c: "isCollapsed (collapsedNodes exToStringState) ''toString''"
    by (simp add: exToStringState_def initialState_def isCollapsed_def inh)
  have c': "\<not> isCollapsed (collapsedNodes (toggleCollapse ''toString'' exEvent exToStringState))
              ''toString''"
    by (simp add: isCollapsed_toggleCollapse c)
  have f: "positions exToStringState ''toString'' = Some \<lparr> pos_x = 0, pos_y = 0 \<rparr>"
    "transform exToStringState = \<lparr> t_x = 0, t_y = 0, t_scale = 1 \<rparr>"
    by (simp_all add: exToStringState_def initialState_def)
  have f': "positions (toggleCollapse ''toString'' exEvent exToStringState) ''toString'' =
              Some \<lparr> pos_x = 0, pos_y = 0 \<rparr>"
    "transform (toggleCollapse ''toString'' exEvent exToStringState) =
       \<lparr> t_x = 0, t_y = 0, t_scale = 1 \<rparr>"
    by (simp_all add: toggleCollapse_def f)
  show ?thesis
    by (simp add: selected_handleMouseMove_marquee [OF mode]
        selected_handleMouseMove_marquee [OF mode'] marqueeHit_def Let_def
        c c' f f' exToStringNodes_def exToStringEvent_def exRect_def)
qed

section \<open>Auto-placement\<close>

lemma ensureStep_None:
  "m (id_pz pz) = None \<Longrightarrow> id_pz pz \<notin> nan \<Longrightarrow> id_pz pz \<notin> set objectPrototypeKeys \<Longrightarrow>
   ensureStep nan (n, pz) (m, ch) = (m(id_pz pz \<mapsto> gridPosition n), True)"
  by (simp add: ensureStep_def)

lemma ensureStep_Some:
  "m (id_pz pz) = Some p \<Longrightarrow> ensureStep nan (n, pz) (m, ch) = (m, ch)"
  by (simp add: ensureStep_def)

lemma ensureStep_truthy:
  "id_pz pz \<in> nan \<or> id_pz pz \<in> set objectPrototypeKeys \<Longrightarrow>
   ensureStep nan (n, pz) (m, ch) = (m, ch)"
  by (cases "m (id_pz pz)") (auto simp add: ensureStep_def)

lemma ensureStep_cases:
  obtains (assign) "m (id_pz pz) = None"
      "ensureStep nan (n, pz) (m, ch) = (m(id_pz pz \<mapsto> gridPosition n), True)"
      "id_pz pz \<notin> nan" "id_pz pz \<notin> set objectPrototypeKeys"
    | (skip) "ensureStep nan (n, pz) (m, ch) = (m, ch)"
      "m (id_pz pz) \<noteq> None \<or> id_pz pz \<in> nan \<or> id_pz pz \<in> set objectPrototypeKeys"
proof (cases "m (id_pz pz) = None \<and> id_pz pz \<notin> nan \<and> id_pz pz \<notin> set objectPrototypeKeys")
  case True
  then show ?thesis using assign ensureStep_None by blast
next
  case False
  then have "ensureStep nan (n, pz) (m, ch) = (m, ch)"
    using ensureStep_Some ensureStep_truthy by (cases "m (id_pz pz)") blast+
  with False show ?thesis using skip by blast
qed




lemma ensure_fold_skips:
  "m k = None \<Longrightarrow> k \<in> nan \<or> k \<in> set objectPrototypeKeys \<Longrightarrow>
   fst (fold (ensureStep nan) (enumerate n pzs) (m, ch)) k = None"
proof (induction pzs arbitrary: n m ch)
  case Nil
  then show ?case by simp
next
  case (Cons pz pzs)
  show ?case
  proof (cases rule: ensureStep_cases [of m pz nan n ch])
    case assign
    define m' where "m' = m(id_pz pz \<mapsto> gridPosition n)"
    have step: "ensureStep nan (n, pz) (m, ch) = (m', True)"
      unfolding m'_def by (rule assign(2))
    from assign(3,4) Cons.prems have "m' k = None" by (auto simp: m'_def)
    from Cons.IH [of m' "Suc n" True, OF this Cons.prems(2)]
    show ?thesis by (simp add: step)
  next
    case skip
    with Cons.IH [of m "Suc n" ch, OF Cons.prems] show ?thesis by simp
  qed
qed







section \<open>Adding a connection\<close>

text \<open>The decimal rendering is injective: two clock readings give two identifiers.\<close>

lemma digit_inj:
  "a < 10 \<Longrightarrow> b < 10 \<Longrightarrow> ''0123456789'' ! a = ''0123456789'' ! b \<Longrightarrow> a = b"
proof -
  assume a: "a < 10" and b: "b < 10" and eq: "''0123456789'' ! a = ''0123456789'' ! b"
  have d: "distinct ''0123456789''" by simp
  have "length ''0123456789'' = 10" by simp
  with a b d eq show "a = b" by (simp add: nth_eq_iff_index_eq)
qed

lemma showNat_nonempty: "showNat n \<noteq> []"
  by (subst showNat.simps) simp

lemma showNat_inj: "showNat n = showNat m \<Longrightarrow> n = m"
proof (induction n arbitrary: m rule: showNat.induct)
  case (1 n)
  show ?case
  proof (cases "n < 10")
    case True
    show ?thesis
    proof (cases "m < 10")
      case m: True
      from "1.prems" True m have "''0123456789'' ! n = ''0123456789'' ! m"
        by (simp add: showNat.simps [of n] showNat.simps [of m])
      with True m show ?thesis by (intro digit_inj)
    next
      case m: False
      from "1.prems" True m have "showNat (m div 10) = []"
        by (simp add: showNat.simps [of n] showNat.simps [of m])
      with showNat_nonempty show ?thesis by blast
    qed
  next
    case False
    show ?thesis
    proof (cases "m < 10")
      case m: True
      from "1.prems" False m have "showNat (n div 10) = []"
        by (simp add: showNat.simps [of n] showNat.simps [of m])
      with showNat_nonempty show ?thesis by blast
    next
      case m: False
      from "1.prems" False m
      have q: "showNat (n div 10) = showNat (m div 10)"
        and r: "''0123456789'' ! (n mod 10) = ''0123456789'' ! (m mod 10)"
        by (simp_all add: showNat.simps [of n] showNat.simps [of m])
      from "1.IH" [OF False q] have "n div 10 = m div 10" .
      moreover from r have "n mod 10 = m mod 10" by (intro digit_inj) simp_all
      ultimately show ?thesis by (metis div_mult_mod_eq)
    qed
  qed
qed


lemma connections_connectGesture:
  "connections (connectGesture now e1 e2 a b s) =
     (if a \<noteq> b \<and> \<not> (\<exists>c \<in> set (connections s). sourceId c = a \<and> targetId c = b)
      then connections s @ [\<lparr> id_conn = ''conn-'' @ showNat now, sourceId = a,
                               targetId = b, label = Some [] \<rparr>]
      else connections s)"
  by (simp add: connectGesture_def handleSocketMouseUp_def handleSocketMouseDown_def Let_def
      list_ex_iff)

lemma filter_length_pos:
  "\<exists>c \<in> set cs. P c \<Longrightarrow> 1 \<le> length (filter P cs)"
  by (induction cs) auto

lemma filter_length_zero:
  "\<not> (\<exists>c \<in> set cs. P c) \<Longrightarrow> length (filter P cs) = 0"
  by (induction cs) auto

text \<open>
  Claim C3. The connect gesture from \<open>a\<close> to \<open>b\<close> leaves the connection list as it is
  when \<open>a = b\<close> and when a connection with source \<open>a\<close> and target \<open>b\<close> exists (so
  that connection and its label stay); otherwise it appends exactly one connection, with
  the identifier made from the clock reading of that moment and with the empty label.
  Hence two gestures from \<open>a\<close> to \<open>b\<close> in a row leave exactly one connection with that
  pair, if there was at most one before. Identifiers made at different clock readings
  differ.
\<close>

theorem add_connection:
  "(a = b \<longrightarrow> connections (connectGesture now e1 e2 a b s) = connections s) \<and>
   ((\<exists>c \<in> set (connections s). sourceId c = a \<and> targetId c = b) \<longrightarrow>
      connections (connectGesture now e1 e2 a b s) = connections s) \<and>
   (a \<noteq> b \<and> \<not> (\<exists>c \<in> set (connections s). sourceId c = a \<and> targetId c = b) \<longrightarrow>
      connections (connectGesture now e1 e2 a b s) =
        connections s @ [\<lparr> id_conn = ''conn-'' @ showNat now, sourceId = a,
                            targetId = b, label = Some [] \<rparr>]) \<and>
   (a \<noteq> b \<and> length (filter (\<lambda>c. sourceId c = a \<and> targetId c = b) (connections s)) \<le> 1 \<longrightarrow>
      length (filter (\<lambda>c. sourceId c = a \<and> targetId c = b)
        (connections (connectGesture now' e3 e4 a b (connectGesture now e1 e2 a b s)))) = 1) \<and>
   (now \<noteq> now' \<longrightarrow> ''conn-'' @ showNat now \<noteq> ''conn-'' @ showNat now')"
proof (intro conjI impI)
  show "connections (connectGesture now e1 e2 a b s) = connections s" if "a = b"
    using that by (simp add: connections_connectGesture)
  show "connections (connectGesture now e1 e2 a b s) = connections s"
    if "\<exists>c \<in> set (connections s). sourceId c = a \<and> targetId c = b"
    using that by (simp add: connections_connectGesture)
  show "connections (connectGesture now e1 e2 a b s) =
        connections s @ [\<lparr> id_conn = ''conn-'' @ showNat now, sourceId = a,
                            targetId = b, label = Some [] \<rparr>]"
    if "a \<noteq> b \<and> \<not> (\<exists>c \<in> set (connections s). sourceId c = a \<and> targetId c = b)"
    using that by (simp add: connections_connectGesture)
  show "length (filter (\<lambda>c. sourceId c = a \<and> targetId c = b)
        (connections (connectGesture now' e3 e4 a b (connectGesture now e1 e2 a b s)))) = 1"
    if h: "a \<noteq> b \<and> length (filter (\<lambda>c. sourceId c = a \<and> targetId c = b) (connections s)) \<le> 1"
  proof (cases "\<exists>c \<in> set (connections s). sourceId c = a \<and> targetId c = b")
    case True
    from filter_length_pos [OF True] h
    have "length (filter (\<lambda>c. sourceId c = a \<and> targetId c = b) (connections s)) = 1"
      by linarith
    with True show ?thesis by (simp add: connections_connectGesture)
  next
    case False
    from filter_length_zero [OF False] False h show ?thesis
      by (simp add: connections_connectGesture)
  qed
  show "''conn-'' @ showNat now \<noteq> ''conn-'' @ showNat now'" if "now \<noteq> now'"
    using that showNat_inj [of now now'] by auto
qed

lemma exState_connections: "connections exState = [exConnAB, exConnBC]"
  by (simp add: exState_def initialState_def)

theorem add_connection_witness:
  "connections (connectGesture 7 exEvent exEvent ''a'' ''a'' exState) = [exConnAB, exConnBC] \<and>
   connections (connectGesture 7 exEvent exEvent ''a'' ''b'' exState) = [exConnAB, exConnBC] \<and>
   label exConnAB = Some ''opens'' \<and>
   connections (connectGesture 7 exEvent exEvent ''a'' ''c'' exState) =
     [exConnAB, exConnBC,
      \<lparr> id_conn = ''conn-7'', sourceId = ''a'', targetId = ''c'', label = Some [] \<rparr>] \<and>
   length (filter (\<lambda>c. sourceId c = ''c'' \<and> targetId c = ''a'')
     (connections (connectGesture 8 exEvent exEvent ''c'' ''a''
        (connectGesture 7 exEvent exEvent ''c'' ''a'' exState)))) = 1 \<and>
   ''conn-'' @ showNat 7 \<noteq> ''conn-'' @ showNat 8"
proof -
  have ab: "\<exists>c \<in> set (connections exState). sourceId c = ''a'' \<and> targetId c = ''b''"
    and ac: "''a'' \<noteq> ''c'' \<and> \<not> (\<exists>c \<in> set (connections exState). sourceId c = ''a'' \<and> targetId c = ''c'')"
    and ca: "''c'' \<noteq> ''a'' \<and> length (filter (\<lambda>c. sourceId c = ''c'' \<and> targetId c = ''a'') (connections exState)) \<le> 1"
    and lbl: "label exConnAB = Some ''opens''"
    by (simp_all add: exState_connections exConnAB_def exConnBC_def)
  have seven: "showNat 7 = ''7''" by (simp add: showNat.simps)
  have t: "(7::nat) \<noteq> 8" by simp
  from add_connection [of "''a''" "''a''" 7 exEvent exEvent exState]
  have 1: "connections (connectGesture 7 exEvent exEvent ''a'' ''a'' exState) = connections exState"
    by blast
  from add_connection [of "''a''" "''b''" 7 exEvent exEvent exState] ab
  have 2: "connections (connectGesture 7 exEvent exEvent ''a'' ''b'' exState) = connections exState"
    by blast
  from add_connection [of "''a''" "''c''" 7 exEvent exEvent exState] ac
  have 3: "connections (connectGesture 7 exEvent exEvent ''a'' ''c'' exState) =
     connections exState @
       [\<lparr> id_conn = ''conn-'' @ showNat 7, sourceId = ''a'', targetId = ''c'', label = Some [] \<rparr>]"
    by blast
  from add_connection [of "''c''" "''a''" 7 exEvent exEvent exState 8 exEvent exEvent] ca t
  have 4: "length (filter (\<lambda>c. sourceId c = ''c'' \<and> targetId c = ''a'')
     (connections (connectGesture 8 exEvent exEvent ''c'' ''a''
        (connectGesture 7 exEvent exEvent ''c'' ''a'' exState)))) = 1"
    and 5: "''conn-'' @ showNat 7 \<noteq> ''conn-'' @ showNat 8"
    by blast+
  from 1 2 3 4 5 lbl show ?thesis
    unfolding exState_connections seven by simp
qed

section \<open>Coordinate transform and zoom\<close>

lemma transform_handleWheel:
  "transform (handleWheel e (Some rect) s) =
     \<lparr> t_x = (w_clientX e - rect_left rect)
             - ((w_clientX e - rect_left rect) - t_x (transform s)) / t_scale (transform s)
               * min (max (t_scale (transform s) + - deltaY e * 0.001) 0.1) 5,
       t_y = (w_clientY e - rect_top rect)
             - ((w_clientY e - rect_top rect) - t_y (transform s)) / t_scale (transform s)
               * min (max (t_scale (transform s) + - deltaY e * 0.001) 0.1) 5,
       t_scale = min (max (t_scale (transform s) + - deltaY e * 0.001) 0.1) 5 \<rparr>"
  by (simp add: handleWheel_def Let_def)

text \<open>
  Claim C5. The round trip through the two handlers that compute the coordinate maps, with
  numbers taken as exact reals and a scale in \<open>[0.1, 5]\<close>. The marquee filter tests the card
  of a node at the screen point \<open>worldToScreen p = p * scale + pan\<close> of its position \<open>p\<close>
  (shifted by the origin of the container). \<open>handleWheel\<close> sets the new pan from the world
  point \<open>screenToWorld m = (m - pan) / scale\<close> of the cursor \<open>m\<close>. The two maps are
  inverse to each other, so a wheel event with the cursor on the projected corner of the
  node reads back the position \<open>p\<close> itself.
\<close>

theorem transform_round_trip:
  assumes "0.1 \<le> t_scale (transform s)" and "t_scale (transform s) \<le> 5"
    and "positions s (id_pz pz) = Some p"
    and "c = worldToScreen (transform s) p"
    and "m = \<lparr> m_x = w_clientX w - rect_left rect, m_y = w_clientY w - rect_top rect \<rparr>"
    and "ns = min (max (t_scale (transform s) + - deltaY w * 0.001) 0.1) 5"
  shows "(marqueeHit s rect sr e pz \<longleftrightarrow>
            m_x c + rect_left rect < max (startX sr) (clientX e) \<and>
            m_x c + rect_left rect + 280 * t_scale (transform s) > min (startX sr) (clientX e) \<and>
            m_y c + rect_top rect < max (startY sr) (clientY e) \<and>
            m_y c + rect_top rect +
              (if isCollapsed (collapsedNodes s) (id_pz pz) then 100 else 250)
                * t_scale (transform s) > min (startY sr) (clientY e)) \<and>
         transform (handleWheel w (Some rect) s) =
           \<lparr> t_x = m_x m - pos_x (screenToWorld (transform s) m) * ns,
             t_y = m_y m - pos_y (screenToWorld (transform s) m) * ns,
             t_scale = ns \<rparr> \<and>
         screenToWorld (transform s) (worldToScreen (transform s) p) = p \<and>
         worldToScreen (transform s) (screenToWorld (transform s) m) = m \<and>
         (m = c \<longrightarrow>
            transform (handleWheel w (Some rect) s) =
              \<lparr> t_x = m_x c - pos_x p * ns, t_y = m_y c - pos_y p * ns, t_scale = ns \<rparr>)"
proof (intro conjI impI)
  show "marqueeHit s rect sr e pz \<longleftrightarrow>
            m_x c + rect_left rect < max (startX sr) (clientX e) \<and>
            m_x c + rect_left rect + 280 * t_scale (transform s) > min (startX sr) (clientX e) \<and>
            m_y c + rect_top rect < max (startY sr) (clientY e) \<and>
            m_y c + rect_top rect +
              (if isCollapsed (collapsedNodes s) (id_pz pz) then 100 else 250)
                * t_scale (transform s) > min (startY sr) (clientY e)"
    by (simp add: marqueeHit_def Let_def assms(3,4) worldToScreen_def)
  show wheel: "transform (handleWheel w (Some rect) s) =
           \<lparr> t_x = m_x m - pos_x (screenToWorld (transform s) m) * ns,
             t_y = m_y m - pos_y (screenToWorld (transform s) m) * ns,
             t_scale = ns \<rparr>"
    by (simp add: transform_handleWheel screenToWorld_def assms(5,6))
  show rt: "screenToWorld (transform s) (worldToScreen (transform s) p) = p"
    using assms(1) by (simp add: screenToWorld_def worldToScreen_def)
  show "worldToScreen (transform s) (screenToWorld (transform s) m) = m"
    using assms(1) by (simp add: screenToWorld_def worldToScreen_def)
  show "transform (handleWheel w (Some rect) s) =
              \<lparr> t_x = m_x c - pos_x p * ns, t_y = m_y c - pos_y p * ns, t_scale = ns \<rparr>"
    if "m = c"
    using wheel rt that by (simp add: assms(4))
qed

lemma exZoom_facts:
  "0.1 \<le> t_scale (transform exZoomState)" "t_scale (transform exZoomState) \<le> 5"
  "positions exZoomState (id_pz \<lparr> id_pz = ''A'', name_pz = ''first'' \<rparr>) =
     Some \<lparr> pos_x = 7, pos_y = 9 \<rparr>"
  "\<lparr> m_x = 67 / 2, m_y = - 31 / 2 \<rparr> =
     worldToScreen (transform exZoomState) \<lparr> pos_x = 7, pos_y = 9 \<rparr>"
  "\<lparr> m_x = 67 / 2, m_y = - 31 / 2 \<rparr> =
     \<lparr> m_x = w_clientX exWheel - rect_left exZoomRect,
       m_y = w_clientY exWheel - rect_top exZoomRect \<rparr>"
  "(1::real) = min (max (t_scale (transform exZoomState) + - deltaY exWheel * 0.001) 0.1) 5"
  by (simp_all add: exZoomState_def initialState_def worldToScreen_def exWheel_def
      exZoomRect_def)

theorem transform_round_trip_witness:
  "marqueeHit exZoomState exZoomRect exMarquee exMarqueeEvent
     \<lparr> id_pz = ''A'', name_pz = ''first'' \<rparr> \<and>
   transform (handleWheel exWheel (Some exZoomRect) exZoomState) =
     \<lparr> t_x = 53 / 2, t_y = - 49 / 2, t_scale = 1 \<rparr> \<and>
   screenToWorld (transform exZoomState)
     (worldToScreen (transform exZoomState) \<lparr> pos_x = 7, pos_y = 9 \<rparr>) =
     \<lparr> pos_x = 7, pos_y = 9 \<rparr>"
proof -
  note inst = transform_round_trip [OF exZoom_facts, where sr = exMarquee and e = exMarqueeEvent]
  have expanded: "\<not> isCollapsed (collapsedNodes exZoomState) ''A''"
    by (simp add: exZoomState_def initialState_def isCollapsed_def objectPrototypeKeys_def
        objectPrototypeDataKeys_def)
  have scale: "t_scale (transform exZoomState) = 1 / 2"
    by (simp add: exZoomState_def initialState_def)
  from inst have "marqueeHit exZoomState exZoomRect exMarquee exMarqueeEvent
     \<lparr> id_pz = ''A'', name_pz = ''first'' \<rparr> \<longleftrightarrow>
       m_x \<lparr> m_x = 67 / 2, m_y = - 31 / 2 \<rparr> + rect_left exZoomRect
         < max (startX exMarquee) (clientX exMarqueeEvent) \<and>
       m_x \<lparr> m_x = 67 / 2, m_y = - 31 / 2 \<rparr> + rect_left exZoomRect
         + 280 * t_scale (transform exZoomState)
         > min (startX exMarquee) (clientX exMarqueeEvent) \<and>
       m_y \<lparr> m_x = 67 / 2, m_y = - 31 / 2 \<rparr> + rect_top exZoomRect
         < max (startY exMarquee) (clientY exMarqueeEvent) \<and>
       m_y \<lparr> m_x = 67 / 2, m_y = - 31 / 2 \<rparr> + rect_top exZoomRect +
         (if isCollapsed (collapsedNodes exZoomState)
               (id_pz \<lparr> id_pz = ''A'', name_pz = ''first'' \<rparr>) then 100 else 250)
           * t_scale (transform exZoomState) > min (startY exMarquee) (clientY exMarqueeEvent)"
    by blast
  then have hit: "marqueeHit exZoomState exZoomRect exMarquee exMarqueeEvent
     \<lparr> id_pz = ''A'', name_pz = ''first'' \<rparr>"
    by (simp add: expanded scale exZoomRect_def exMarquee_def exMarqueeEvent_def)
  from inst have "transform (handleWheel exWheel (Some exZoomRect) exZoomState) =
     \<lparr> t_x = m_x \<lparr> m_x = 67 / 2, m_y = - 31 / 2 \<rparr> - pos_x \<lparr> pos_x = 7, pos_y = 9 \<rparr> * 1,
       t_y = m_y \<lparr> m_x = 67 / 2, m_y = - 31 / 2 \<rparr> - pos_y \<lparr> pos_x = 7, pos_y = 9 \<rparr> * 1,
       t_scale = 1 \<rparr>"
    by blast
  then have wheel: "transform (handleWheel exWheel (Some exZoomRect) exZoomState) =
     \<lparr> t_x = 53 / 2, t_y = - 49 / 2, t_scale = 1 \<rparr>"
    by simp
  from inst have rt: "screenToWorld (transform exZoomState)
     (worldToScreen (transform exZoomState) \<lparr> pos_x = 7, pos_y = 9 \<rparr>) =
     \<lparr> pos_x = 7, pos_y = 9 \<rparr>"
    by blast
  from hit wheel rt show ?thesis by blast
qed

text \<open>
  Claim C4. For a wheel event over the container, with the cursor at \<open>m\<close> relative to the
  container and a scale in \<open>[0.1, 5]\<close> before the event: the new scale is
  \<open>scale + (- deltaY) * 0.001\<close> clamped to \<open>[0.1, 5]\<close>, the new pan is
  \<open>m - (m - pan) / scale * newScale\<close>, and the world point that was under the cursor is
  projected to the cursor again by the new transform (numbers taken as exact reals).
\<close>

theorem zoom_anchor:
  assumes "0.1 \<le> t_scale (transform s)" and "t_scale (transform s) \<le> 5"
    and "s' = handleWheel e (Some rect) s"
    and "m = \<lparr> m_x = w_clientX e - rect_left rect, m_y = w_clientY e - rect_top rect \<rparr>"
    and "v = t_scale (transform s) + (- deltaY e) * 0.001"
  shows "t_scale (transform s') = (if v < 0.1 then 0.1 else if 5 < v then 5 else v) \<and>
         0.1 \<le> t_scale (transform s') \<and> t_scale (transform s') \<le> 5 \<and>
         t_x (transform s') = m_x m - (m_x m - t_x (transform s)) / t_scale (transform s) * t_scale (transform s') \<and>
         t_y (transform s') = m_y m - (m_y m - t_y (transform s)) / t_scale (transform s) * t_scale (transform s') \<and>
         worldToScreen (transform s') (screenToWorld (transform s) m) = m"
  using assms
  by (simp add: transform_handleWheel worldToScreen_def screenToWorld_def min_def max_def)

lemma exWheel_facts:
  "0.1 \<le> t_scale (transform (initialState None))"
  "t_scale (transform (initialState None)) \<le> 5"
  by (simp_all add: initialState_def)

theorem zoom_anchor_witness:
  "transform (handleWheel \<lparr> deltaY = - 1000, w_clientX = 110, w_clientY = 220 \<rparr>
      (Some \<lparr> rect_left = 10, rect_top = 20, rect_width = 1200, rect_height = 800 \<rparr>)
      (initialState None)) = \<lparr> t_x = - 100, t_y = - 200, t_scale = 2 \<rparr> \<and>
   t_scale (transform (handleWheel \<lparr> deltaY = - 10000, w_clientX = 110, w_clientY = 220 \<rparr>
      (Some \<lparr> rect_left = 10, rect_top = 20, rect_width = 1200, rect_height = 800 \<rparr>)
      (initialState None))) = 5 \<and>
   t_scale (transform (handleWheel \<lparr> deltaY = 5000, w_clientX = 110, w_clientY = 220 \<rparr>
      (Some \<lparr> rect_left = 10, rect_top = 20, rect_width = 1200, rect_height = 800 \<rparr>)
      (initialState None))) = 1 / 10"
proof -
  have tr: "transform (initialState None) = \<lparr> t_x = 0, t_y = 0, t_scale = 1 \<rparr>"
    by (simp add: initialState_def)
  note z = zoom_anchor [OF exWheel_facts refl refl refl]
  from z [of "\<lparr> deltaY = - 1000, w_clientX = 110, w_clientY = 220 \<rparr>"
             "\<lparr> rect_left = 10, rect_top = 20, rect_width = 1200, rect_height = 800 \<rparr>"]
  have a: "transform (handleWheel \<lparr> deltaY = - 1000, w_clientX = 110, w_clientY = 220 \<rparr>
      (Some \<lparr> rect_left = 10, rect_top = 20, rect_width = 1200, rect_height = 800 \<rparr>)
      (initialState None)) = \<lparr> t_x = - 100, t_y = - 200, t_scale = 2 \<rparr>"
    by (simp add: tr Transform.equality)
  from z [of "\<lparr> deltaY = - 10000, w_clientX = 110, w_clientY = 220 \<rparr>"
             "\<lparr> rect_left = 10, rect_top = 20, rect_width = 1200, rect_height = 800 \<rparr>"]
  have b: "t_scale (transform (handleWheel \<lparr> deltaY = - 10000, w_clientX = 110, w_clientY = 220 \<rparr>
      (Some \<lparr> rect_left = 10, rect_top = 20, rect_width = 1200, rect_height = 800 \<rparr>)
      (initialState None))) = 5"
    by (simp add: tr)
  from z [of "\<lparr> deltaY = 5000, w_clientX = 110, w_clientY = 220 \<rparr>"
             "\<lparr> rect_left = 10, rect_top = 20, rect_width = 1200, rect_height = 800 \<rparr>"]
  have c: "t_scale (transform (handleWheel \<lparr> deltaY = 5000, w_clientX = 110, w_clientY = 220 \<rparr>
      (Some \<lparr> rect_left = 10, rect_top = 20, rect_width = 1200, rect_height = 800 \<rparr>)
      (initialState None))) = 1 / 10"
    by (simp add: tr)
  from a b c show ?thesis by blast
qed

section \<open>Reconnecting a connection\<close>

text \<open>
  A drag started on the unplug handle of \<open>conn\<close> and released over the empty canvas removes
  the connections that carry the identifier of \<open>conn\<close> and adds none.
\<close>

lemma reconnect_release_over_canvas:
  "id_conn conn \<noteq> [] \<Longrightarrow>
   connections (pointerRelease now e2 OverCanvas (handleUnplugMouseDown e1 conn s)) =
     filter (\<lambda>c. id_conn c \<noteq> id_conn conn) (connections s)"
  by (simp add: handleMouseUp_def handleUnplugMouseDown_def Let_def
      connections_removeConnection)

text \<open>
  Released on the input socket of \<open>t\<close>, the same drag is handled like a fresh one: the
  connection list only grows, so \<open>conn\<close> is still there.
\<close>

lemma reconnect_release_on_socket:
  "connections (pointerRelease now e2 (OverInputSocket t) (handleUnplugMouseDown e1 conn s)) =
     (if sourceId conn \<noteq> t \<and>
         \<not> (\<exists>c \<in> set (connections s). sourceId c = sourceId conn \<and> targetId c = t)
      then connections s @ [\<lparr> id_conn = ''conn-'' @ showNat now, sourceId = sourceId conn,
                               targetId = t, label = Some [] \<rparr>]
      else connections s)"
  by (simp add: handleSocketMouseUp_def handleUnplugMouseDown_def Let_def list_ex_iff)

lemma reconnect_release_on_socket_keeps:
  "conn \<in> set (connections s) \<Longrightarrow>
   conn \<in> set (connections (pointerRelease now e2 (OverInputSocket t)
                   (handleUnplugMouseDown e1 conn s)))"
  by (simp add: reconnect_release_on_socket del: pointerRelease.simps)

text \<open>
  Claim C1. The canvas with the connections \<open>a \<rightarrow> b\<close> and \<open>b \<rightarrow> c\<close>: the unplug handle
  of \<open>a \<rightarrow> b\<close> is dragged and released on the input socket of \<open>c\<close> at clock reading 7.
  The new connection \<open>a \<rightarrow> c\<close> is appended and the original \<open>a \<rightarrow> b\<close> is still in the
  list, where the claim says that it no longer exists.
\<close>

theorem reconnect_on_socket_keeps_original:
  "connections (pointerRelease 7 exEvent (OverInputSocket ''c'')
      (handleUnplugMouseDown exEvent exConnAB exState)) =
     [exConnAB, exConnBC,
      \<lparr> id_conn = ''conn-7'', sourceId = ''a'', targetId = ''c'', label = Some [] \<rparr>]"
proof -
  have seven: "showNat 7 = ''7''" by (simp add: showNat.simps)
  have conns: "connections exState = [exConnAB, exConnBC]"
    by (simp add: exState_def initialState_def)
  have src: "sourceId exConnAB = ''a''" "targetId exConnAB = ''b''"
    "sourceId exConnBC = ''b''" "targetId exConnBC = ''c''"
    by (simp_all add: exConnAB_def exConnBC_def)
  show ?thesis
    by (simp add: reconnect_release_on_socket conns src seven del: pointerRelease.simps)
qed

end
